theory Spec2Isabelle
  imports Complex_Main "HOL-Library.Multiset" "HOL-Library.Log_Nat"
begin

section \<open>Data model\<close>

text \<open>
  Modelled from the spec: the \<open>Property\<close> model class (\<open>models.py\<close> is imported by every
  source file but is not among them). The spec gives its fields: id, title, description,
  price (a decimal), location and created_at (a timestamp). The decimal type \<open>'d\<close> and the
  timestamp type \<open>'t\<close> belong to the Python library and stay type parameters; the code
  only orders timestamps and renders both as strings.
\<close>

record ('d, 't) Property =
  prop_id :: int
  title :: string
  description :: string
  price :: 'd
  location :: string
  created_at :: 't

text \<open>The records of Python's \<open>logging\<close> module, as far as the code uses it: a severity
  and the formatted message.\<close>

datatype level = INFO | WARNING | ERROR

type_synonym log_record = "level \<times> string"

text \<open>
  The cache backend. An entry holds the stored value and the instant at which it expires;
  the backend's clock counts seconds. The three operations are those of the cache
  protocol the code calls (\<open>cache.get\<close>, \<open>cache.set\<close> with a timeout, \<open>cache.delete\<close>):
  an expired entry is as good as absent, and \<open>delete\<close> answers whether a live entry was
  removed. The theory covers a reachable backend; the one place where the source handles
  an unreachable one is \<open>get_redis_cache_metrics\<close> below.
\<close>

type_synonym 'v cache = "string \<rightharpoonup> ('v \<times> nat)"

definition cache_get :: "nat \<Rightarrow> 'v cache \<Rightarrow> string \<Rightarrow> 'v option" where
  "cache_get t c k =
     (case c k of
        None \<Rightarrow> None
      | Some (v, expires) \<Rightarrow> if t < expires then Some v else None)"

definition cache_set :: "nat \<Rightarrow> 'v cache \<Rightarrow> string \<Rightarrow> 'v \<Rightarrow> nat \<Rightarrow> 'v cache" where
  "cache_set t c k v timeout = c(k \<mapsto> (v, t + timeout))"

definition cache_delete :: "nat \<Rightarrow> 'v cache \<Rightarrow> string \<Rightarrow> bool \<times> 'v cache" where
  "cache_delete t c k = (cache_get t c k \<noteq> None, c(k := None))"

text \<open>
  The state the module's functions run in: the rows of the Store, the cache, the clock,
  the log written so far, and a probe counting the queries sent to the Store.
\<close>

record ('d, 't) system =
  store :: "('d, 't) Property list"
  cache :: "('d, 't) Property list cache"
  clock :: nat
  log :: "log_record list"
  store_queries :: nat

definition logger_info :: "string \<Rightarrow> ('d, 't) system \<Rightarrow> ('d, 't) system" where
  "logger_info msg s = s\<lparr>log := log s @ [(INFO, msg)]\<rparr>"

definition logger_warning :: "string \<Rightarrow> ('d, 't) system \<Rightarrow> ('d, 't) system" where
  "logger_warning msg s = s\<lparr>log := log s @ [(WARNING, msg)]\<rparr>"

definition logger_error :: "string \<Rightarrow> ('d, 't) system \<Rightarrow> ('d, 't) system" where
  "logger_error msg s = s\<lparr>log := log s @ [(ERROR, msg)]\<rparr>"

text \<open>Time passing between two calls.\<close>

definition tick :: "nat \<Rightarrow> ('d, 't) system \<Rightarrow> ('d, 't) system" where
  "tick d s = s\<lparr>clock := clock s + d\<rparr>"

subsection \<open>String formatting\<close>

definition quoted :: "string \<Rightarrow> string" where
  "quoted s = [CHR 0x27] @ s @ [CHR 0x27]"

fun str_nat :: "nat \<Rightarrow> string" where
  "str_nat n =
     (if n < 10 then [''0123456789'' ! n]
      else str_nat (n div 10) @ [''0123456789'' ! (n mod 10)])"

declare str_nat.simps [simp del]

section \<open>utils.py\<close>

text \<open>
  The Store query \<open>Property.objects.all().order_by('-created_at')\<close>, evaluated by
  \<open>list\<close>: every row, newest first. SQL leaves the order of rows with equal timestamps
  open; the model fixes one, and no theorem below depends on which.
\<close>

definition order_by_created_at_desc ::
  "('d, 't::linorder) Property list \<Rightarrow> ('d, 't) Property list" where
  "order_by_created_at_desc rows = rev (sort_key created_at rows)"

definition query_all_properties ::
  "('d, 't::linorder) system \<Rightarrow> ('d, 't) Property list \<times> ('d, 't) system" where
  "query_all_properties s =
     (order_by_created_at_desc (store s), s\<lparr>store_queries := store_queries s + 1\<rparr>)"

definition get_all_properties ::
  "('d, 't::linorder) system \<Rightarrow> ('d, 't) Property list \<times> ('d, 't) system" where
  "get_all_properties s =
     (let cache_key = ''all_properties'';
          cached_properties = cache_get (clock s) (cache s) cache_key
      in case cached_properties of
           Some cached \<Rightarrow>
             (cached,
              logger_info (''Cache HIT for key '' @ quoted cache_key
                             @ '' - returning cached properties'') s)
         | None \<Rightarrow>
             (let s1 = logger_info (''Cache MISS for key '' @ quoted cache_key
                                      @ '' - fetching from database'') s;
                  (properties_list, s2) = query_all_properties s1;
                  s3 = s2\<lparr>cache := cache_set (clock s2) (cache s2) cache_key
                                       properties_list 3600\<rparr>;
                  s4 = logger_info (''Cached '' @ str_nat (length properties_list)
                                      @ '' properties for 1 hour'') s3
              in (properties_list, s4)))"

definition invalidate_properties_cache ::
  "('d, 't) system \<Rightarrow> bool \<times> ('d, 't) system" where
  "invalidate_properties_cache s =
     (let cache_key = ''all_properties'';
          (result, c) = cache_delete (clock s) (cache s) cache_key;
          s1 = s\<lparr>cache := c\<rparr>;
          s2 = (if result
                then logger_info (''Successfully invalidated cache for key ''
                                    @ quoted cache_key) s1
                else logger_warning (''Failed to invalidate cache for key ''
                                       @ quoted cache_key @ '' (may not exist)'') s1)
      in (result, s2))"

text \<open>The dictionary \<open>get_cache_info\<close> returns. The value cached under the key is a
  Python list, so its type name is \<open>list\<close>; \<open>None\<close> is Python's \<open>None\<close>.\<close>

record cache_info =
  cache_key :: string
  exists :: bool
  count :: nat
  data_type :: "string option"

definition get_cache_info :: "('d, 't) system \<Rightarrow> cache_info \<times> ('d, 't) system" where
  "get_cache_info s =
     (let key = ''all_properties'';
          cached_data = cache_get (clock s) (cache s) key;
          exists = (cached_data \<noteq> None);
          info = \<lparr>cache_key = key,
                  exists = exists,
                  count = (case cached_data of Some xs \<Rightarrow> length xs | None \<Rightarrow> 0),
                  data_type = (case cached_data of Some xs \<Rightarrow> Some ''list'' | None \<Rightarrow> None)\<rparr>
      in (info, s))"

subsection \<open>Python numbers\<close>

text \<open>
  A Python float is an IEEE 754 binary64 number; the model keeps its value, a rational.
  \<open>round_to_double\<close> is rounding to the nearest binary64 number, ties to the even
  significand: 53 significant bits, and a fixed spacing of \<open>2^-1074\<close> below \<open>2^-1022\<close>.
\<close>

definition pow2 :: "int \<Rightarrow> rat" where
  "pow2 k = (if 0 \<le> k then 2 ^ nat k else 1 / 2 ^ nat (- k))"

definition round_half_even :: "rat \<Rightarrow> int" where
  "round_half_even x =
     (let f = \<lfloor>x\<rfloor>; r = x - of_int f
      in if r < 1 / 2 then f else if 1 / 2 < r then f + 1
         else if even f then f else f + 1)"

definition floor_log2 :: "rat \<Rightarrow> int" where
  "floor_log2 x =
     (let (p, q) = quotient_of x; d = bitlen p - bitlen q
      in if pow2 d \<le> x then d else d - 1)"

definition round_to_double :: "rat \<Rightarrow> rat" where
  "round_to_double x =
     (if x = 0 then 0
      else let e = floor_log2 \<bar>x\<bar>;
               quantum = pow2 (max e (- 1022) - 52)
           in of_int (round_half_even (x / quantum)) * quantum)"

text \<open>The exceptions that can reach the \<open>except\<close> clause, each with its message.\<close>

datatype exn =
    ConnectionError string
  | TimeoutError string
  | ZeroDivisionError string
  | OverflowError string

fun str_exn :: "exn \<Rightarrow> string" where
  "str_exn (ConnectionError msg) = msg"
| "str_exn (TimeoutError msg) = msg"
| "str_exn (ZeroDivisionError msg) = msg"
| "str_exn (OverflowError msg) = msg"

text \<open>\<open>a / b\<close> on two Python integers: the quotient correctly rounded, or an exception.\<close>

definition true_div :: "nat \<Rightarrow> nat \<Rightarrow> exn + rat" where
  "true_div a b =
     (if b = 0 then Inl (ZeroDivisionError ''division by zero'')
      else let r = round_to_double (of_nat a / of_nat b)
           in if pow2 1024 \<le> r
              then Inl (OverflowError ''integer division result too large for a float'')
              else Inr r)"

text \<open>\<open>x * y\<close> on floats, for a product within the range of binary64 (the products of this
  module are at most 100).\<close>

definition float_mul :: "rat \<Rightarrow> rat \<Rightarrow> rat" where
  "float_mul x y = round_to_double (x * y)"

text \<open>A number that is a Python \<open>int\<close> or a Python \<open>float\<close>: \<open>hit_ratio\<close> is the integer
  \<open>0\<close> on one branch and a float on the other.\<close>

datatype pynum = PyInt int | PyFloat rat

fun num_value :: "pynum \<Rightarrow> rat" where
  "num_value (PyInt n) = of_int n"
| "num_value (PyFloat x) = x"

text \<open>\<open>round(x, 2)\<close>: an \<open>int\<close> is returned as it is; a float goes to the nearest decimal
  with two places (ties to even, on the float's exact value), and that decimal to the
  nearest float.\<close>

fun py_round2 :: "pynum \<Rightarrow> pynum" where
  "py_round2 (PyInt n) = PyInt n"
| "py_round2 (PyFloat x) = PyFloat (round_to_double (of_int (round_half_even (x * 100)) / 100))"

text \<open>The format \<open>{x:.2f}\<close> of a number that is not negative.\<close>

definition format_2f :: "pynum \<Rightarrow> string" where
  "format_2f x =
     (let n = nat (round_half_even (num_value x * 100))
      in str_nat (n div 100) @ ''.'' @ str_nat (n mod 100 div 10) @ str_nat (n mod 10))"

subsection \<open>Metrics\<close>

text \<open>The entries of the dictionary \<open>redis_connection.info()\<close> returns that the code
  reads; \<open>None\<close> stands for a key the dictionary lacks. The two keyspace counters count
  lookups.\<close>

record redis_info =
  info_keyspace_hits :: "nat option"
  info_keyspace_misses :: "nat option"
  info_redis_version :: "string option"
  info_used_memory :: "int option"
  info_used_memory_human :: "string option"
  info_connected_clients :: "int option"
  info_total_commands_processed :: "int option"
  info_instantaneous_ops_per_sec :: "int option"

text \<open>The dictionary \<open>get_redis_cache_metrics\<close> returns; the key \<open>error\<close> exists in the
  dictionary of the \<open>except\<close> branch only.\<close>

record metrics =
  keyspace_hits :: nat
  keyspace_misses :: nat
  total_requests :: nat
  hit_ratio :: pynum
  miss_ratio :: pynum
  redis_version :: string
  used_memory :: int
  used_memory_human :: string
  connected_clients :: int
  total_commands_processed :: int
  instantaneous_ops_per_sec :: int
  cache_efficiency :: string
  error :: "string option"

definition dict_get :: "'a option \<Rightarrow> 'a \<Rightarrow> 'a" where
  "dict_get entry dflt = (case entry of Some v \<Rightarrow> v | None \<Rightarrow> dflt)"

definition ratio :: "nat \<Rightarrow> nat \<Rightarrow> exn + pynum" where
  "ratio part requests =
     (if requests > 0
      then (case true_div part requests of
              Inl e \<Rightarrow> Inl e
            | Inr q \<Rightarrow> Inr (PyFloat (float_mul q 100)))
      else Inr (PyInt 0))"

definition efficiency :: "pynum \<Rightarrow> string" where
  "efficiency hit =
     (if num_value hit \<ge> 90 then ''Excellent''
      else if num_value hit \<ge> 70 then ''Good''
      else if num_value hit \<ge> 50 then ''Fair''
      else ''Poor'')"

text \<open>The body of the \<open>try\<close> block, given what connecting to Redis and asking for its
  statistics gave: the dictionary, or the exception raised.\<close>

definition metrics_try ::
  "exn + redis_info \<Rightarrow> ('d, 't) system \<Rightarrow> exn + (metrics \<times> ('d, 't) system)" where
  "metrics_try connection s =
     (case connection of
        Inl e \<Rightarrow> Inl e
      | Inr redis_info \<Rightarrow>
          (let hits = dict_get (info_keyspace_hits redis_info) 0;
               misses = dict_get (info_keyspace_misses redis_info) 0;
               total = hits + misses
           in case ratio hits total of
                Inl e \<Rightarrow> Inl e
              | Inr hit \<Rightarrow>
                 (case ratio misses total of
                    Inl e \<Rightarrow> Inl e
                  | Inr miss \<Rightarrow>
                     (let m = \<lparr>keyspace_hits = hits,
                                keyspace_misses = misses,
                                total_requests = total,
                                hit_ratio = py_round2 hit,
                                miss_ratio = py_round2 miss,
                                redis_version = dict_get (info_redis_version redis_info) ''Unknown'',
                                used_memory = dict_get (info_used_memory redis_info) 0,
                                used_memory_human =
                                  dict_get (info_used_memory_human redis_info) ''0B'',
                                connected_clients =
                                  dict_get (info_connected_clients redis_info) 0,
                                total_commands_processed =
                                  dict_get (info_total_commands_processed redis_info) 0,
                                instantaneous_ops_per_sec =
                                  dict_get (info_instantaneous_ops_per_sec redis_info) 0,
                                cache_efficiency = efficiency hit,
                                error = None\<rparr>
                      in Inr (m, logger_info
                                   (''Redis Cache Metrics - Hits: '' @ str_nat hits
                                    @ '', Misses: '' @ str_nat misses
                                    @ '', Hit Ratio: '' @ format_2f hit
                                    @ ''%, Total Requests: '' @ str_nat total
                                    @ '', Efficiency: '' @ cache_efficiency m) s)))))"

definition get_redis_cache_metrics ::
  "exn + redis_info \<Rightarrow> ('d, 't) system \<Rightarrow> metrics \<times> ('d, 't) system" where
  "get_redis_cache_metrics connection s =
     (case metrics_try connection s of
        Inr result \<Rightarrow> result
      | Inl e \<Rightarrow>
          (\<lparr>keyspace_hits = 0,
            keyspace_misses = 0,
            total_requests = 0,
            hit_ratio = PyFloat 0,
            miss_ratio = PyFloat 0,
            redis_version = ''Unknown'',
            used_memory = 0,
            used_memory_human = ''0B'',
            connected_clients = 0,
            total_commands_processed = 0,
            instantaneous_ops_per_sec = 0,
            cache_efficiency = ''Error'',
            error = Some (str_exn e)\<rparr>,
           logger_error (''Failed to retrieve Redis cache metrics: '' @ str_exn e) s))"

section \<open>signals.py\<close>

definition invalidate_cache_on_property_save ::
  "('d, 't) Property \<Rightarrow> bool \<Rightarrow> ('d, 't) system \<Rightarrow> ('d, 't) system" where
  "invalidate_cache_on_property_save instance created s =
     (let cache_key = ''all_properties'';
          (cache_deleted, c) = cache_delete (clock s) (cache s) cache_key;
          s1 = s\<lparr>cache := c\<rparr>;
          action = (if created then ''created'' else ''updated'')
      in if cache_deleted
         then logger_info (''Cache invalidated: Property '' @ quoted (title instance)
                             @ '' was '' @ action @ ''. ''
                             @ ''Cache key '' @ quoted cache_key
                             @ '' removed from Redis.'') s1
         else logger_info (''Property '' @ quoted (title instance)
                             @ '' was '' @ action @ ''. ''
                             @ ''Cache key '' @ quoted cache_key
                             @ '' was not found (may have already expired).'') s1)"

definition invalidate_cache_on_property_delete ::
  "('d, 't) Property \<Rightarrow> ('d, 't) system \<Rightarrow> ('d, 't) system" where
  "invalidate_cache_on_property_delete instance s =
     (let cache_key = ''all_properties'';
          (cache_deleted, c) = cache_delete (clock s) (cache s) cache_key;
          s1 = s\<lparr>cache := c\<rparr>
      in if cache_deleted
         then logger_info (''Cache invalidated: Property '' @ quoted (title instance)
                             @ '' was deleted. ''
                             @ ''Cache key '' @ quoted cache_key
                             @ '' removed from Redis.'') s1
         else logger_info (''Property '' @ quoted (title instance)
                             @ '' was deleted. ''
                             @ ''Cache key '' @ quoted cache_key
                             @ '' was not found (may have already expired).'') s1)"

definition manual_cache_invalidation ::
  "('d, 't) system \<Rightarrow> bool \<times> ('d, 't) system" where
  "manual_cache_invalidation s =
     (let cache_key = ''all_properties'';
          (result, c) = cache_delete (clock s) (cache s) cache_key;
          s1 = s\<lparr>cache := c\<rparr>;
          s2 = (if result
                then logger_info (''Manual cache invalidation: Cache key ''
                                    @ quoted cache_key @ '' removed.'') s1
                else logger_warning (''Manual cache invalidation: Cache key ''
                                       @ quoted cache_key @ '' not found.'') s1)
      in (result, s2))"

subsection \<open>The Store's mutations\<close>

text \<open>
  Modelled from the spec: the Store and its subscription mechanism, which are the
  framework's and the missing \<open>models.py\<close>'s. Saving an instance writes its row (a new
  one when no row has its id, else in place of the row with its id) and then, the write
  done, notifies the \<open>post_save\<close> receiver with the instance and whether it was created;
  deleting an instance removes the row with its id and then notifies the \<open>post_delete\<close>
  receiver. Each receiver runs once per event, in the mutating call itself.
\<close>

definition model_save :: "('d, 't) Property \<Rightarrow> ('d, 't) system \<Rightarrow> ('d, 't) system" where
  "model_save instance s =
     (let created = (prop_id instance \<notin> prop_id ` set (store s));
          rows = (if created then store s @ [instance]
                  else map (\<lambda>r. if prop_id r = prop_id instance then instance else r) (store s))
      in invalidate_cache_on_property_save instance created (s\<lparr>store := rows\<rparr>))"

definition model_delete :: "('d, 't) Property \<Rightarrow> ('d, 't) system \<Rightarrow> ('d, 't) system" where
  "model_delete instance s =
     invalidate_cache_on_property_delete instance
       (s\<lparr>store := filter (\<lambda>r. prop_id r \<noteq> prop_id instance) (store s)\<rparr>)"

text \<open>What can happen to the system, one call after the other: a fetch, time passing,
  a mutation of the Store, an invalidation by hand.\<close>

datatype ('d, 't) event =
    Fetch
  | Tick nat
  | Save "('d, 't) Property"
  | Delete "('d, 't) Property"
  | Invalidate
  | ManualInvalidate

fun step :: "('d, 't::linorder) event \<Rightarrow> ('d, 't) system \<Rightarrow> ('d, 't) system" where
  "step Fetch s = snd (get_all_properties s)"
| "step (Tick d) s = tick d s"
| "step (Save p) s = model_save p s"
| "step (Delete p) s = model_delete p s"
| "step Invalidate s = snd (invalidate_properties_cache s)"
| "step ManualInvalidate s = snd (manual_cache_invalidation s)"

fun run :: "('d, 't::linorder) event list \<Rightarrow> ('d, 't) system \<Rightarrow> ('d, 't) system" where
  "run [] s = s"
| "run (e # es) s = run es (step e s)"

fun is_mutation :: "('d, 't) event \<Rightarrow> bool" where
  "is_mutation (Save p) = True"
| "is_mutation (Delete p) = True"
| "is_mutation e = False"

section \<open>views.py\<close>

datatype json =
    JNull
  | JBool bool
  | JInt int
  | JString string
  | JArray "json list"
  | JObject "(string \<times> json) list"

record http_response =
  status_code :: nat
  content_type :: string
  content :: json

definition JsonResponse :: "json \<Rightarrow> http_response" where
  "JsonResponse data =
     \<lparr>status_code = 200, content_type = ''application/json'', content = data\<rparr>"

text \<open>The loop of \<open>property_list\<close>, appending one dictionary per property. \<open>str_price\<close> is
  \<open>str\<close> on the library's decimals and \<open>isoformat\<close> the method of its timestamps.\<close>

fun properties_data_loop ::
  "('d \<Rightarrow> string) \<Rightarrow> ('t \<Rightarrow> string) \<Rightarrow> ('d, 't) Property list \<Rightarrow> json list \<Rightarrow> json list" where
  "properties_data_loop str_price isoformat [] properties_data = properties_data"
| "properties_data_loop str_price isoformat (property # rest) properties_data =
     properties_data_loop str_price isoformat rest
       (properties_data @
        [JObject [(''id'', JInt (prop_id property)),
                  (''title'', JString (title property)),
                  (''description'', JString (description property)),
                  (''price'', JString (str_price (price property))),
                  (''location'', JString (location property)),
                  (''created_at'', JString (isoformat (created_at property)))]])"

text \<open>The view, as the function the decorator \<open>cache_page\<close> wraps; the decorator's own
  tier of cached responses is the framework's.\<close>

definition property_list ::
  "('d \<Rightarrow> string) \<Rightarrow> ('t \<Rightarrow> string) \<Rightarrow> 'r \<Rightarrow> ('d, 't::linorder) system
     \<Rightarrow> http_response \<times> ('d, 't) system" where
  "property_list str_price isoformat request s =
     (let (properties, s1) = get_all_properties s;
          properties_data = properties_data_loop str_price isoformat properties []
      in (JsonResponse
            (JObject [(''properties'', JArray properties_data),
                      (''count'', JInt (int (length properties_data))),
                      (''cached'', JBool True)]),
          s1))"

section \<open>Notions used by the statements\<close>

text \<open>The events that neither change the Store nor delete from the cache, and the time
  a list of events lets pass.\<close>

definition is_read :: "('d, 't) event \<Rightarrow> bool" where
  "is_read e = (case e of Fetch \<Rightarrow> True | Tick d \<Rightarrow> True | _ \<Rightarrow> False)"

fun elapsed :: "('d, 't) event list \<Rightarrow> nat" where
  "elapsed [] = 0"
| "elapsed (Tick d # es) = d + elapsed es"
| "elapsed (e # es) = elapsed es"

text \<open>The cache is coherent when the value it holds under the key, if that value is
  still alive, is the answer the Store would give now.\<close>

definition coherent :: "('d, 't::linorder) system \<Rightarrow> bool" where
  "coherent s =
     (case cache s ''all_properties'' of
        None \<Rightarrow> True
      | Some (v, expires) \<Rightarrow>
          if clock s < expires then v = order_by_created_at_desc (store s) else True)"

text \<open>Concrete data for the examples: prices are rationals, timestamps are numbers.\<close>

definition example_property :: "int \<Rightarrow> string \<Rightarrow> nat \<Rightarrow> (rat, nat) Property" where
  "example_property i t c =
     \<lparr>prop_id = i, title = t, description = ''a flat'', price = 1250, location = ''Nairobi'',
      created_at = c\<rparr>"

definition example_system :: "(rat, nat) Property list \<Rightarrow> (rat, nat) system" where
  "example_system rows =
     \<lparr>store = rows, cache = Map.empty, clock = 100, log = [], store_queries = 0\<rparr>"

text \<open>The float the expression \<open>(part / requests) * 100\<close> evaluates to.\<close>

definition float_ratio :: "nat \<Rightarrow> nat \<Rightarrow> rat" where
  "float_ratio part requests =
     float_mul (round_to_double (of_nat part / of_nat requests)) 100"

definition example_info :: "nat \<Rightarrow> nat \<Rightarrow> redis_info" where
  "example_info h m =
     \<lparr>info_keyspace_hits = Some h, info_keyspace_misses = Some m,
      info_redis_version = Some ''7.2.4'', info_used_memory = Some 1048576,
      info_used_memory_human = Some ''1.00M'', info_connected_clients = Some 1,
      info_total_commands_processed = Some 500, info_instantaneous_ops_per_sec = None\<rparr>"

section \<open>Properties of the cache operations\<close>

lemma cache_get_after_delete: "cache_get t (snd (cache_delete t' c k)) k = None"
  by (simp add: cache_get_def cache_delete_def)

lemma cache_get_after_set:
  "cache_get t' (cache_set t c k v timeout) k = (if t' < t + timeout then Some v else None)"
  by (simp add: cache_get_def cache_set_def)

section \<open>Invalidation\<close>

text \<open>
  Claim C3. \<open>invalidate_properties_cache\<close> deletes the key \<open>all_properties\<close> and returns
  whether a value was removed: its result is true exactly when the cache held a live
  value under the key, and the key is absent afterwards, at every later instant. So a
  second call, at once or after any time \<open>d\<close>, returns false: present, the two calls
  return true then false; absent, the call returns false. The function is total and its
  result a plain boolean: a missing key is no exception.
\<close>

theorem invalidate_properties_cache_result:
  "fst (invalidate_properties_cache s)
     = (cache_get (clock s) (cache s) ''all_properties'' \<noteq> None)
   \<and> cache_get t (cache (snd (invalidate_properties_cache s))) ''all_properties'' = None
   \<and> fst (invalidate_properties_cache (snd (invalidate_properties_cache s))) = False
   \<and> fst (invalidate_properties_cache (tick d (snd (invalidate_properties_cache s)))) = False"
  by (simp add: invalidate_properties_cache_def cache_delete_def cache_get_def tick_def
        logger_info_def logger_warning_def Let_def)

section \<open>The Store query\<close>

lemma mset_order_by [simp]: "mset (order_by_created_at_desc rows) = mset rows"
  by (simp add: order_by_created_at_desc_def)

lemma set_order_by [simp]: "set (order_by_created_at_desc rows) = set rows"
  by (simp add: order_by_created_at_desc_def)

lemma sorted_order_by:
  "sorted_wrt (\<lambda>x y. x \<ge> y) (map created_at (order_by_created_at_desc rows))"
proof -
  have "sorted (map created_at (sort_key created_at rows))" by simp
  then have "sorted_wrt (\<lambda>x y. x \<ge> y) (rev (map created_at (sort_key created_at rows)))"
    by (simp add: sorted_wrt_rev)
  then show ?thesis by (simp add: order_by_created_at_desc_def rev_map)
qed

lemma order_by_three:
  fixes p1 p2 p3 :: "('d, 't::linorder) Property"
  assumes m: "mset rows = {#p1, p2, p3#}"
    and lt: "created_at p1 < created_at p2" "created_at p2 < created_at p3"
  shows "order_by_created_at_desc rows = [p3, p2, p1]"
proof -
  have f: "filter (\<lambda>x. created_at k = created_at x) rows
             = filter (\<lambda>x. created_at k = created_at x) [p1, p2, p3]"
    if "k \<in> set [p1, p2, p3]" for k
  proof -
    have "mset (filter (\<lambda>x. created_at k = created_at x) rows) = {#k#}"
      using that lt by (auto simp add: m)
    then have "filter (\<lambda>x. created_at k = created_at x) rows = [k]"
      by (simp only: mset_single_iff)
    moreover have "filter (\<lambda>x. created_at k = created_at x) [p1, p2, p3] = [k]"
      using that lt by auto
    ultimately show ?thesis by simp
  qed
  have "sort_key created_at rows = [p1, p2, p3]"
  proof (rule properties_for_sort_key)
    show "mset [p1, p2, p3] = mset rows" by (simp add: m)
    show "sorted (map created_at [p1, p2, p3])" using lt by auto
    show "filter (\<lambda>x. created_at k = created_at x) [p1, p2, p3]
            = filter (\<lambda>x. created_at k = created_at x) rows"
      if "k \<in> set [p1, p2, p3]" for k
      using f [OF that] by simp
  qed
  then show ?thesis by (simp add: order_by_created_at_desc_def)
qed

section \<open>Fetching\<close>

lemma get_all_properties_hit:
  assumes "cache_get (clock s) (cache s) ''all_properties'' = Some v"
  shows "get_all_properties s =
           (v, logger_info (''Cache HIT for key '' @ quoted ''all_properties''
                              @ '' - returning cached properties'') s)"
  using assms by (simp add: get_all_properties_def)

lemma get_all_properties_miss:
  assumes "cache_get (clock s) (cache s) ''all_properties'' = None"
  shows "fst (get_all_properties s) = order_by_created_at_desc (store s)"
    and "store (snd (get_all_properties s)) = store s"
    and "clock (snd (get_all_properties s)) = clock s"
    and "store_queries (snd (get_all_properties s)) = store_queries s + 1"
    and "cache (snd (get_all_properties s)) =
           (cache s)(''all_properties'' \<mapsto> (order_by_created_at_desc (store s), clock s + 3600))"
  using assms
  by (simp_all add: get_all_properties_def query_all_properties_def logger_info_def
        cache_set_def Let_def)

lemma get_all_properties_frame:
  "store (snd (get_all_properties s)) = store s"
  "clock (snd (get_all_properties s)) = clock s"
  by (simp_all add: get_all_properties_def query_all_properties_def logger_info_def
        cache_set_def Let_def split: option.splits)

lemma coherent_fetch:
  assumes "coherent s"
  shows "fst (get_all_properties s) = order_by_created_at_desc (store s)"
    and "coherent (snd (get_all_properties s))"
  using assms
  by (auto simp add: coherent_def get_all_properties_def query_all_properties_def logger_info_def
        cache_set_def cache_get_def Let_def split: option.splits if_splits)

lemma is_read_cases: "is_read e \<Longrightarrow> e = Fetch \<or> (\<exists>d. e = Tick d)"
  by (cases e) (simp_all add: is_read_def)

lemma reads_keep_entry:
  fixes s :: "('d, 't::linorder) system"
  assumes "cache s ''all_properties'' = Some (v, ex)"
    and "list_all is_read es"
    and "clock s + elapsed es < ex"
  shows "cache (run es s) ''all_properties'' = Some (v, ex)
         \<and> clock (run es s) = clock s + elapsed es
         \<and> store_queries (run es s) = store_queries s
         \<and> store (run es s) = store s"
  using assms
proof (induction es arbitrary: s)
  case Nil
  then show ?case by simp
next
  case (Cons e es)
  from Cons.prems(2) have "is_read e" and rest: "list_all is_read es" by simp_all
  then consider "e = Fetch" | d where "e = Tick d" using is_read_cases by blast
  then show ?case
  proof cases
    case 1
    have hit: "cache_get (clock s) (cache s) ''all_properties'' = Some v"
      using Cons.prems(1,3) by (simp add: cache_get_def)
    have st: "step e s = logger_info (''Cache HIT for key '' @ quoted ''all_properties''
                              @ '' - returning cached properties'') s"
      using get_all_properties_hit [OF hit] 1 by simp
    have "cache (step e s) ''all_properties'' = Some (v, ex)"
      and "clock (step e s) = clock s" and "store_queries (step e s) = store_queries s"
      and "store (step e s) = store s"
      using Cons.prems(1) by (simp_all add: st logger_info_def)
    moreover have "elapsed (e # es) = elapsed es" using 1 by simp
    ultimately show ?thesis
      using Cons.IH [of "step e s"] rest Cons.prems(3) by simp
  next
    case 2
    have "cache (step e s) ''all_properties'' = Some (v, ex)"
      and "clock (step e s) = clock s + d" and "store_queries (step e s) = store_queries s"
      and "store (step e s) = store s"
      using Cons.prems(1) 2 by (simp_all add: tick_def)
    moreover have "elapsed (e # es) = d + elapsed es" using 2 by simp
    ultimately show ?thesis
      using Cons.IH [of "step e s"] rest Cons.prems(3) by simp
  qed
qed

lemma fetch_after_miss:
  fixes s :: "('d, 't::linorder) system"
  assumes miss: "cache_get (clock s) (cache s) ''all_properties'' = None"
    and reads: "list_all is_read es" and within: "elapsed es < 3600"
  shows "get_all_properties (run es (snd (get_all_properties s)))
           = (fst (get_all_properties s),
              logger_info (''Cache HIT for key '' @ quoted ''all_properties''
                             @ '' - returning cached properties'')
                (run es (snd (get_all_properties s))))"
    and "store_queries (run es (snd (get_all_properties s))) = store_queries s + 1"
proof -
  let ?s' = "snd (get_all_properties s)"
  have entry: "cache ?s' ''all_properties'' = Some (fst (get_all_properties s), clock s + 3600)"
    by (simp add: get_all_properties_miss [OF miss])
  have "clock ?s' + elapsed es < clock s + 3600"
    using within by (simp add: get_all_properties_frame)
  from reads_keep_entry [OF entry reads this]
  have k: "cache (run es ?s') ''all_properties'' = Some (fst (get_all_properties s), clock s + 3600)"
    "clock (run es ?s') = clock ?s' + elapsed es"
    "store_queries (run es ?s') = store_queries ?s'"
    by simp_all
  have "cache_get (clock (run es ?s')) (cache (run es ?s')) ''all_properties''
          = Some (fst (get_all_properties s))"
    using within by (simp add: cache_get_def k get_all_properties_frame)
  then show "get_all_properties (run es ?s')
           = (fst (get_all_properties s),
              logger_info (''Cache HIT for key '' @ quoted ''all_properties''
                             @ '' - returning cached properties'') (run es ?s'))"
    by (rule get_all_properties_hit)
  show "store_queries (run es ?s') = store_queries s + 1"
    by (simp add: k get_all_properties_miss [OF miss])
qed

lemma example_miss:
  "cache_get (clock (example_system rows)) (cache (example_system rows)) ''all_properties'' = None"
  by (simp add: example_system_def cache_get_def)


section \<open>The cache stays coherent\<close>

lemma coherent_tick: "coherent s \<Longrightarrow> coherent (tick d s)"
  by (auto simp add: coherent_def tick_def split: option.splits if_splits)

lemma coherent_invalidate:
  "coherent (snd (invalidate_properties_cache s))"
  "coherent (snd (manual_cache_invalidation s))"
  by (simp_all add: coherent_def invalidate_properties_cache_def manual_cache_invalidation_def
        cache_delete_def logger_info_def logger_warning_def Let_def)

lemma save_handler_cache:
  "cache (invalidate_cache_on_property_save p created s) = (cache s)(''all_properties'' := None)"
  "store (invalidate_cache_on_property_save p created s) = store s"
  "clock (invalidate_cache_on_property_save p created s) = clock s"
  by (simp_all add: invalidate_cache_on_property_save_def cache_delete_def logger_info_def Let_def)

lemma delete_handler_cache:
  "cache (invalidate_cache_on_property_delete p s) = (cache s)(''all_properties'' := None)"
  "store (invalidate_cache_on_property_delete p s) = store s"
  "clock (invalidate_cache_on_property_delete p s) = clock s"
  by (simp_all add: invalidate_cache_on_property_delete_def cache_delete_def logger_info_def Let_def)

lemma model_save_cache: "cache (model_save p s) = (cache s)(''all_properties'' := None)"
  by (simp add: model_save_def save_handler_cache Let_def)

lemma model_delete_cache: "cache (model_delete p s) = (cache s)(''all_properties'' := None)"
  by (simp add: model_delete_def delete_handler_cache)

lemma model_save_store:
  "store (model_save p s) =
     (if prop_id p \<notin> prop_id ` set (store s) then store s @ [p]
      else map (\<lambda>r. if prop_id r = prop_id p then p else r) (store s))"
  by (simp add: model_save_def save_handler_cache Let_def)

lemma model_delete_store:
  "store (model_delete p s) = filter (\<lambda>r. prop_id r \<noteq> prop_id p) (store s)"
  by (simp add: model_delete_def delete_handler_cache)

lemma coherent_mutation: "coherent (model_save p s)" "coherent (model_delete p s)"
  by (simp_all add: coherent_def model_save_cache model_delete_cache)

lemma coherent_step: "coherent s \<Longrightarrow> coherent (step e s)"
  by (cases e) (simp_all add: coherent_fetch coherent_tick coherent_invalidate coherent_mutation)

lemma coherent_run: "coherent s \<Longrightarrow> coherent (run es s)"
  by (induction es arbitrary: s) (simp_all add: coherent_step)

lemma store_invalidate:
  "store (snd (invalidate_properties_cache s)) = store s"
  "store (snd (manual_cache_invalidation s)) = store s"
  by (simp_all add: invalidate_properties_cache_def manual_cache_invalidation_def
        cache_delete_def logger_info_def logger_warning_def Let_def)

lemma store_step: "\<not> is_mutation e \<Longrightarrow> store (step e s) = store s"
  by (cases e) (simp_all add: get_all_properties_frame tick_def store_invalidate)

lemma store_run: "list_all (\<lambda>e. \<not> is_mutation e) es \<Longrightarrow> store (run es s) = store s"
  by (induction es arbitrary: s) (simp_all add: store_step)

lemma saved_in_store: "p \<in> set (store (model_save p s))"
  by (auto simp add: model_save_store)

lemma saved_is_the_row:
  "r \<in> set (store (model_save p s)) \<Longrightarrow> prop_id r = prop_id p \<Longrightarrow> r = p"
  by (auto simp add: model_save_store image_iff split: if_splits)

lemma deleted_not_in_store: "r \<in> set (store (model_delete p s)) \<Longrightarrow> prop_id r \<noteq> prop_id p"
  by (simp add: model_delete_store)


section \<open>Cache-aside\<close>

lemma is_read_no_mutation: "list_all is_read es \<Longrightarrow> list_all (\<lambda>e. \<not> is_mutation e) es"
  by (induction es) (auto dest: is_read_cases)

lemma coherent_after_miss:
  assumes "cache_get (clock s) (cache s) ''all_properties'' = None"
  shows "coherent (snd (get_all_properties s))"
  by (simp add: coherent_def get_all_properties_miss [OF assms])

lemma fetch_after_reads:
  fixes s :: "('d, 't::linorder) system"
  assumes miss: "cache_get (clock s) (cache s) ''all_properties'' = None"
    and reads: "list_all is_read es"
  shows "fst (get_all_properties (run es (snd (get_all_properties s))))
           = fst (get_all_properties s)"
proof -
  let ?s' = "snd (get_all_properties s)"
  have "coherent (run es ?s')"
    by (rule coherent_run) (rule coherent_after_miss [OF miss])
  then have "fst (get_all_properties (run es ?s'))
               = order_by_created_at_desc (store (run es ?s'))"
    by (rule coherent_fetch(1))
  also have "store (run es ?s') = store ?s'"
    by (rule store_run) (rule is_read_no_mutation [OF reads])
  also have "store ?s' = store s"
    by (rule get_all_properties_frame(1))
  finally show ?thesis by (simp add: get_all_properties_miss(1) [OF miss])
qed

text \<open>
  Claim C2. Cache-aside. On a hit \<open>get_all_properties\<close> returns the cached sequence as it
  is, sends no query to the Store and leaves the cache alone. On a miss it returns every
  row of the Store (the same multiset) ordered by \<open>created_at\<close> descending, so three
  Properties created at \<open>t1 < t2 < t3\<close> come back as \<open>[t3, t2, t1]\<close>; it sends one
  query, and writes the sequence under the key with a lifetime of 3600 seconds: the cache
  answers with it at every instant before \<open>clock + 3600\<close> and with nothing from then on.
  A lookup that follows, with only fetches and time passing in between, returns the
  identical sequence; it sends no query to the Store as long as less than 3600 seconds
  have passed, that is, while the entry has not expired.
\<close>

theorem get_all_properties_cache_aside:
  fixes s :: "('d, 't::linorder) system"
  shows
  "(\<forall>v. cache_get (clock s) (cache s) ''all_properties'' = Some v \<longrightarrow>
        fst (get_all_properties s) = v
      \<and> store_queries (snd (get_all_properties s)) = store_queries s
      \<and> cache (snd (get_all_properties s)) = cache s)
   \<and> (cache_get (clock s) (cache s) ''all_properties'' = None \<longrightarrow>
        mset (fst (get_all_properties s)) = mset (store s)
      \<and> sorted_wrt (\<lambda>x y. x \<ge> y) (map created_at (fst (get_all_properties s)))
      \<and> (\<forall>p1 p2 p3. mset (store s) = {#p1, p2, p3#}
             \<and> created_at p1 < created_at p2 \<and> created_at p2 < created_at p3
             \<longrightarrow> fst (get_all_properties s) = [p3, p2, p1])
      \<and> store_queries (snd (get_all_properties s)) = store_queries s + 1
      \<and> (\<forall>t. cache_get t (cache (snd (get_all_properties s))) ''all_properties''
             = (if t < clock s + 3600 then Some (fst (get_all_properties s)) else None))
      \<and> (\<forall>es. list_all is_read es \<longrightarrow>
             fst (get_all_properties (run es (snd (get_all_properties s))))
               = fst (get_all_properties s))
      \<and> (\<forall>es. list_all is_read es \<and> elapsed es < 3600 \<longrightarrow>
             store_queries (snd (get_all_properties (run es (snd (get_all_properties s)))))
               = store_queries (snd (get_all_properties s))))"
proof (intro conjI allI impI)
  fix v assume hit: "cache_get (clock s) (cache s) ''all_properties'' = Some v"
  show "fst (get_all_properties s) = v"
    and "store_queries (snd (get_all_properties s)) = store_queries s"
    and "cache (snd (get_all_properties s)) = cache s"
    by (simp_all add: get_all_properties_hit [OF hit] logger_info_def)
next
  assume miss: "cache_get (clock s) (cache s) ''all_properties'' = None"
  note m = get_all_properties_miss [OF miss]
  show "mset (fst (get_all_properties s)) = mset (store s)"
    by (simp add: m)
  show "sorted_wrt (\<lambda>x y. x \<ge> y) (map created_at (fst (get_all_properties s)))"
    by (simp add: m sorted_order_by)
  show "store_queries (snd (get_all_properties s)) = store_queries s + 1"
    by (simp add: m)
  show "cache_get t (cache (snd (get_all_properties s))) ''all_properties''
          = (if t < clock s + 3600 then Some (fst (get_all_properties s)) else None)" for t
    by (simp add: m cache_get_def)
  show "fst (get_all_properties s) = [p3, p2, p1]"
    if "mset (store s) = {#p1, p2, p3#}
          \<and> created_at p1 < created_at p2 \<and> created_at p2 < created_at p3" for p1 p2 p3
    using that by (simp add: m order_by_three)
  show "fst (get_all_properties (run es (snd (get_all_properties s))))
               = fst (get_all_properties s)"
    if "list_all is_read es" for es :: "('d, 't) event list"
    using that by (rule fetch_after_reads [OF miss])
  fix es :: "('d, 't) event list"
  assume r: "list_all is_read es \<and> elapsed es < 3600"
  then have r1: "list_all is_read es" and r2: "elapsed es < 3600" by simp_all
  note f = fetch_after_miss [OF miss r1 r2]
  show "store_queries (snd (get_all_properties (run es (snd (get_all_properties s)))))
               = store_queries (snd (get_all_properties s))"
    by (simp add: f m logger_info_def)
qed

theorem get_all_properties_cache_aside_witness:
  "cache_get (clock (example_system [example_property 2 ''b'' 20, example_property 3 ''c'' 30,
                                      example_property 1 ''a'' 10]))
      (cache (example_system [example_property 2 ''b'' 20, example_property 3 ''c'' 30,
                              example_property 1 ''a'' 10])) ''all_properties'' = None
   \<and> fst (get_all_properties (example_system [example_property 2 ''b'' 20,
              example_property 3 ''c'' 30, example_property 1 ''a'' 10]))
       = [example_property 3 ''c'' 30, example_property 2 ''b'' 20, example_property 1 ''a'' 10]
   \<and> fst (get_all_properties (run [Tick 3599, Fetch]
            (snd (get_all_properties (example_system [example_property 2 ''b'' 20,
              example_property 3 ''c'' 30, example_property 1 ''a'' 10])))))
       = [example_property 3 ''c'' 30, example_property 2 ''b'' 20, example_property 1 ''a'' 10]
   \<and> cache_get (clock ((example_system []) \<lparr>cache := [''all_properties'' \<mapsto>
                      ([example_property 1 ''a'' 10], 5000)]\<rparr>))
        (cache ((example_system []) \<lparr>cache := [''all_properties'' \<mapsto>
                      ([example_property 1 ''a'' 10], 5000)]\<rparr>)) ''all_properties''
       = Some [example_property 1 ''a'' 10]
   \<and> fst (get_all_properties ((example_system []) \<lparr>cache := [''all_properties'' \<mapsto>
                      ([example_property 1 ''a'' 10], 5000)]\<rparr>))
       = [example_property 1 ''a'' 10]"
proof -
  let ?s = "example_system [example_property 2 ''b'' 20, example_property 3 ''c'' 30,
                             example_property 1 ''a'' 10]"
  let ?h = "(example_system []) \<lparr>cache := [''all_properties'' \<mapsto>
                      ([example_property 1 ''a'' 10], 5000)]\<rparr>"
  have m: "mset (store ?s) = {#example_property 1 ''a'' 10, example_property 2 ''b'' 20,
                              example_property 3 ''c'' 30#}
           \<and> created_at (example_property 1 ''a'' 10) < created_at (example_property 2 ''b'' 20)
           \<and> created_at (example_property 2 ''b'' 20) < created_at (example_property 3 ''c'' 30)"
    by (simp add: example_system_def example_property_def)
  have r: "list_all is_read [Tick 3599, Fetch :: (rat, nat) event]
           \<and> elapsed [Tick 3599, Fetch :: (rat, nat) event] < 3600"
    by (simp add: is_read_def)
  have h: "cache_get (clock ?h) (cache ?h) ''all_properties'' = Some [example_property 1 ''a'' 10]"
    by (simp add: cache_get_def example_system_def)
  from get_all_properties_cache_aside [of ?s] example_miss [of "store ?s"] m r
  have "fst (get_all_properties ?s)
          = [example_property 3 ''c'' 30, example_property 2 ''b'' 20, example_property 1 ''a'' 10]
        \<and> fst (get_all_properties (run [Tick 3599, Fetch] (snd (get_all_properties ?s))))
          = fst (get_all_properties ?s)"
    using example_miss [of "[example_property 2 ''b'' 20, example_property 3 ''c'' 30,
                             example_property 1 ''a'' 10]"]
    by blast
  moreover from get_all_properties_cache_aside [of ?h] h
  have "fst (get_all_properties ?h) = [example_property 1 ''a'' 10]" by blast
  ultimately show ?thesis
    using example_miss [of "[example_property 2 ''b'' 20, example_property 3 ''c'' 30,
                             example_property 1 ''a'' 10]"] h
    by simp
qed

text \<open>
  Claim C6. With an empty Store and no live value in the cache, \<open>get_all_properties\<close>
  returns the empty sequence (the function is total: nothing is raised) and writes it to
  the cache; a call that follows within the lifetime of the entry is a hit: it returns the
  cached empty sequence, logs the hit, and sends no query to the Store.
\<close>

theorem get_all_properties_empty_store:
  fixes s :: "('d, 't::linorder) system"
  assumes "store s = []"
    and "cache_get (clock s) (cache s) ''all_properties'' = None"
  shows "fst (get_all_properties s) = []
       \<and> cache_get (clock s) (cache (snd (get_all_properties s))) ''all_properties'' = Some []
       \<and> (\<forall>es. list_all is_read es \<and> elapsed es < 3600 \<longrightarrow>
             get_all_properties (run es (snd (get_all_properties s)))
               = ([], logger_info (''Cache HIT for key '' @ quoted ''all_properties''
                                     @ '' - returning cached properties'')
                        (run es (snd (get_all_properties s))))
           \<and> store_queries (snd (get_all_properties (run es (snd (get_all_properties s)))))
               = store_queries (snd (get_all_properties s)))"
proof -
  note m = get_all_properties_miss [OF assms(2)]
  have r: "fst (get_all_properties s) = []"
    by (simp add: m assms(1) order_by_created_at_desc_def)
  have c: "cache_get (clock s) (cache (snd (get_all_properties s))) ''all_properties'' = Some []"
    by (simp add: m assms(1) cache_get_def order_by_created_at_desc_def)
  have h: "get_all_properties (run es (snd (get_all_properties s)))
               = ([], logger_info (''Cache HIT for key '' @ quoted ''all_properties''
                                     @ '' - returning cached properties'')
                        (run es (snd (get_all_properties s))))
           \<and> store_queries (snd (get_all_properties (run es (snd (get_all_properties s)))))
               = store_queries (snd (get_all_properties s))"
    if "list_all is_read es \<and> elapsed es < 3600" for es :: "('d, 't) event list"
  proof -
    from that have r1: "list_all is_read es" and r2: "elapsed es < 3600" by simp_all
    note f = fetch_after_miss [OF assms(2) r1 r2]
    show ?thesis using f r by (simp add: m logger_info_def)
  qed
  from r c h show ?thesis by blast
qed


theorem get_all_properties_empty_store_witness:
  "store (example_system []) = []
   \<and> cache_get (clock (example_system [])) (cache (example_system [])) ''all_properties'' = None
   \<and> list_all is_read [Tick 3599, Fetch :: (rat, nat) event] \<and> elapsed [Tick 3599, Fetch :: (rat, nat) event] < 3600
   \<and> fst (get_all_properties (example_system [])) = []
   \<and> fst (get_all_properties (run [Tick 3599, Fetch] (snd (get_all_properties (example_system []))))) = []
   \<and> store_queries (snd (get_all_properties (run [Tick 3599, Fetch]
         (snd (get_all_properties (example_system [])))))) = 1"
proof -
  have a: "store (example_system []) = []" by (simp add: example_system_def)
  have b: "list_all is_read [Tick 3599, Fetch :: (rat, nat) event]
           \<and> elapsed [Tick 3599, Fetch :: (rat, nat) event] < 3600"
    by (simp add: is_read_def)
  have "store_queries (snd (get_all_properties (example_system [])))
          = store_queries (example_system [] :: (rat, nat) system) + 1"
    by (rule get_all_properties_miss [OF example_miss])
  then have q: "store_queries (snd (get_all_properties (example_system []))) = 1"
    by (simp add: example_system_def)
  from get_all_properties_empty_store [OF a example_miss] a b q example_miss [of "[]"]
  show ?thesis by (metis fst_conv)
qed

section \<open>Read after write\<close>

text \<open>
  Claim C1. Each receiver deletes the key \<open>all_properties\<close>, whatever the cache held: after
  \<open>invalidate_cache_on_property_save\<close> (for a created and for an updated instance) and after
  \<open>invalidate_cache_on_property_delete\<close> the key is absent at every instant, and so it is
  after every mutation of the Store, which runs its receiver in the mutating call. From then
  on, whatever calls follow (fetches, time passing, invalidations, further mutations),
  \<open>get_all_properties\<close> returns the rows the Store holds at that moment, newest first. So
  when no further mutation intervenes, a saved Property is in every later result (a created
  one regardless of what the cache held before), every listed record with its id is the
  saved instance itself, with its new title, and no later result lists a record with the id
  of a deleted Property.
\<close>

theorem read_after_write:
  "cache_get t (cache (invalidate_cache_on_property_save p created s)) ''all_properties'' = None
   \<and> cache_get t (cache (invalidate_cache_on_property_delete p s)) ''all_properties'' = None
   \<and> cache_get t (cache (model_save p s)) ''all_properties'' = None
   \<and> cache_get t (cache (model_delete p s)) ''all_properties'' = None
   \<and> fst (get_all_properties (run es (model_save p s)))
       = order_by_created_at_desc (store (run es (model_save p s)))
   \<and> fst (get_all_properties (run es (model_delete p s)))
       = order_by_created_at_desc (store (run es (model_delete p s)))
   \<and> (list_all (\<lambda>e. \<not> is_mutation e) es \<longrightarrow>
         p \<in> set (fst (get_all_properties (run es (model_save p s))))
       \<and> (\<forall>r \<in> set (fst (get_all_properties (run es (model_save p s)))).
             prop_id r = prop_id p \<longrightarrow> r = p \<and> title r = title p)
       \<and> (\<forall>r \<in> set (fst (get_all_properties (run es (model_delete p s)))).
             prop_id r \<noteq> prop_id p))"
proof -
  have h: "cache_get t (cache (invalidate_cache_on_property_save p created s))
             ''all_properties'' = None"
    "cache_get t (cache (invalidate_cache_on_property_delete p s)) ''all_properties'' = None"
    by (simp_all add: save_handler_cache delete_handler_cache cache_get_def)
  have a: "cache_get t (cache (model_save p s)) ''all_properties'' = None"
    by (simp add: model_save_cache cache_get_def)
  have b: "cache_get t (cache (model_delete p s)) ''all_properties'' = None"
    by (simp add: model_delete_cache cache_get_def)
  have c: "fst (get_all_properties (run es (model_save p s)))
       = order_by_created_at_desc (store (run es (model_save p s)))"
    by (rule coherent_fetch(1)) (rule coherent_run, rule coherent_mutation)
  have d: "fst (get_all_properties (run es (model_delete p s)))
       = order_by_created_at_desc (store (run es (model_delete p s)))"
    by (rule coherent_fetch(1)) (rule coherent_run, rule coherent_mutation)
  have e: "p \<in> set (fst (get_all_properties (run es (model_save p s))))
       \<and> (\<forall>r \<in> set (fst (get_all_properties (run es (model_save p s)))).
             prop_id r = prop_id p \<longrightarrow> r = p \<and> title r = title p)
       \<and> (\<forall>r \<in> set (fst (get_all_properties (run es (model_delete p s)))).
             prop_id r \<noteq> prop_id p)"
    if "list_all (\<lambda>e. \<not> is_mutation e) es"
    using that saved_is_the_row [of _ p s]
    by (auto simp add: c d store_run saved_in_store deleted_not_in_store)
  from h a b c d e show ?thesis by blast
qed

theorem read_after_write_witness:
  "list_all (\<lambda>e. \<not> is_mutation e) [Fetch, Tick 5000, Fetch :: (rat, nat) event]
   \<and> example_property 2 ''new flat'' 20
       \<in> set (fst (get_all_properties (run [Fetch, Tick 5000, Fetch]
            (model_save (example_property 2 ''new flat'' 20)
               ((example_system [example_property 1 ''old title'' 10])
                  \<lparr>cache := [''all_properties'' \<mapsto> ([], 5000)]\<rparr>)))))
   \<and> example_property 1 ''new title'' 10
       \<in> set (fst (get_all_properties (run [Fetch, Tick 5000, Fetch]
            (model_save (example_property 1 ''new title'' 10)
               ((example_system [example_property 1 ''old title'' 10])
                  \<lparr>cache := [''all_properties'' \<mapsto> ([example_property 1 ''old title'' 10], 5000)]\<rparr>)))))
   \<and> example_property 1 ''old title'' 10
       \<notin> set (fst (get_all_properties (run [Fetch, Tick 5000, Fetch]
            (model_delete (example_property 1 ''old title'' 10)
               ((example_system [example_property 1 ''old title'' 10])
                  \<lparr>cache := [''all_properties'' \<mapsto> ([example_property 1 ''old title'' 10], 5000)]\<rparr>)))))"
proof -
  have a: "list_all (\<lambda>e. \<not> is_mutation e) [Fetch, Tick 5000, Fetch :: (rat, nat) event]"
    by simp
  show ?thesis
    using a
      read_after_write [where p = "example_property 2 ''new flat'' 20"
        and s = "(example_system [example_property 1 ''old title'' 10])
                  \<lparr>cache := [''all_properties'' \<mapsto> ([], 5000)]\<rparr>"
        and es = "[Fetch, Tick 5000, Fetch]"]
      read_after_write [where p = "example_property 1 ''new title'' 10"
        and s = "(example_system [example_property 1 ''old title'' 10])
                  \<lparr>cache := [''all_properties'' \<mapsto> ([example_property 1 ''old title'' 10], 5000)]\<rparr>"
        and es = "[Fetch, Tick 5000, Fetch]"]
      read_after_write [where p = "example_property 1 ''old title'' 10"
        and s = "(example_system [example_property 1 ''old title'' 10])
                  \<lparr>cache := [''all_properties'' \<mapsto> ([example_property 1 ''old title'' 10], 5000)]\<rparr>"
        and es = "[Fetch, Tick 5000, Fetch]"]
    by blast
qed

section \<open>The endpoint\<close>

lemma properties_data_loop_map:
  "properties_data_loop str_price isoformat properties acc =
     acc @ map (\<lambda>p. JObject [(''id'', JInt (prop_id p)),
                              (''title'', JString (title p)),
                              (''description'', JString (description p)),
                              (''price'', JString (str_price (price p))),
                              (''location'', JString (location p)),
                              (''created_at'', JString (isoformat (created_at p)))])
             properties"
  by (induction properties arbitrary: acc) simp_all

text \<open>
  Claim C7. For the sequence \<open>get_all_properties\<close> returns, \<open>property_list\<close> answers with
  the JSON object \<open>{properties, count, cached}\<close>: \<open>properties\<close> lists one record per
  Property, in the order of the sequence, with the fields id, title, description, price
  (the decimal rendered by \<open>str\<close>), location and created_at (the timestamp rendered by
  \<open>isoformat\<close>); \<open>count\<close> is the length of that list; \<open>cached\<close> is \<open>true\<close>. The view
  does to the system what \<open>get_all_properties\<close> does, and nothing else.
\<close>

theorem property_list_payload:
  "fst (property_list str_price isoformat request s) =
     \<lparr>status_code = 200, content_type = ''application/json'',
      content =
        JObject
          [(''properties'',
            JArray (map (\<lambda>p. JObject [(''id'', JInt (prop_id p)),
                                        (''title'', JString (title p)),
                                        (''description'', JString (description p)),
                                        (''price'', JString (str_price (price p))),
                                        (''location'', JString (location p)),
                                        (''created_at'', JString (isoformat (created_at p)))])
                      (fst (get_all_properties s)))),
           (''count'', JInt (int (length (fst (get_all_properties s))))),
           (''cached'', JBool True)]\<rparr>
   \<and> snd (property_list str_price isoformat request s) = snd (get_all_properties s)"
  by (simp add: property_list_def JsonResponse_def properties_data_loop_map split_beta)

section \<open>Cache information\<close>

text \<open>
  Claim C9. \<open>get_cache_info\<close> leaves the whole system as it was (cache, Store, log) and
  returns a record with the key \<open>all_properties\<close>; when no live value is under the key:
  not present, count 0 and no type name; when a sequence is: present, its length, and the
  type name \<open>list\<close>.
\<close>

theorem get_cache_info_record:
  "snd (get_cache_info s) = s
   \<and> cache_key (fst (get_cache_info s)) = ''all_properties''
   \<and> (cache_get (clock s) (cache s) ''all_properties'' = None \<longrightarrow>
         \<not> exists (fst (get_cache_info s))
       \<and> count (fst (get_cache_info s)) = 0
       \<and> data_type (fst (get_cache_info s)) = None)
   \<and> (\<forall>xs. cache_get (clock s) (cache s) ''all_properties'' = Some xs \<longrightarrow>
         exists (fst (get_cache_info s))
       \<and> count (fst (get_cache_info s)) = length xs
       \<and> data_type (fst (get_cache_info s)) = Some ''list'')"
  by (simp add: get_cache_info_def Let_def)

theorem get_cache_info_record_witness:
  "cache_get (clock (example_system [])) (cache (example_system [])) ''all_properties'' = None
   \<and> count (fst (get_cache_info (example_system []))) = 0
   \<and> data_type (fst (get_cache_info (example_system []))) = None
   \<and> cache_get (clock (snd (get_all_properties (example_system [example_property 1 ''a'' 10]))))
        (cache (snd (get_all_properties (example_system [example_property 1 ''a'' 10]))))
        ''all_properties'' = Some [example_property 1 ''a'' 10]
   \<and> count (fst (get_cache_info
        (snd (get_all_properties (example_system [example_property 1 ''a'' 10]))))) = 1
   \<and> data_type (fst (get_cache_info
        (snd (get_all_properties (example_system [example_property 1 ''a'' 10])))))
       = Some ''list''"
proof -
  let ?s = "snd (get_all_properties (example_system [example_property 1 ''a'' 10]))"
  let ?e = "example_system [example_property 1 ''a'' 10]"
  have c: "cache ?s = (cache ?e)(''all_properties'' \<mapsto>
             (order_by_created_at_desc (store ?e), clock ?e + 3600))"
    by (rule get_all_properties_miss(5) [OF example_miss])
  have k: "clock ?s = clock ?e"
    by (rule get_all_properties_miss(3) [OF example_miss])
  have h: "cache_get (clock ?s) (cache ?s) ''all_properties'' = Some [example_property 1 ''a'' 10]"
    unfolding c k
    by (simp add: cache_get_def order_by_created_at_desc_def example_system_def)
  from get_cache_info_record [of "example_system []"] get_cache_info_record [of ?s]
    example_miss [of "[]"] h
  show ?thesis by simp
qed

section \<open>Deleting an absent key\<close>

text \<open>
  Claim C8, as amended. When the key \<open>all_properties\<close> is absent, deleting it answers
  false and nothing is raised. \<open>invalidate_properties_cache\<close> and
  \<open>manual_cache_invalidation\<close> return that false and log one record, at warning
  severity. The two receivers log one record at info severity, and they do so in every
  state \<open>s'\<close>, the key present or absent: their two messages have the same severity,
  which is info and not warning.
\<close>

theorem absent_key_severity:
  assumes "cache_get (clock s) (cache s) ''all_properties'' = None"
  shows "fst (cache_delete (clock s) (cache s) ''all_properties'') = False
   \<and> fst (invalidate_properties_cache s) = False
   \<and> (\<exists>msg. log (snd (invalidate_properties_cache s)) = log s @ [(WARNING, msg)])
   \<and> fst (manual_cache_invalidation s) = False
   \<and> (\<exists>msg. log (snd (manual_cache_invalidation s)) = log s @ [(WARNING, msg)])
   \<and> (\<exists>msg. log (invalidate_cache_on_property_save p created s) = log s @ [(INFO, msg)])
   \<and> (\<exists>msg. log (invalidate_cache_on_property_delete p s) = log s @ [(INFO, msg)])
   \<and> (\<exists>msg. log (invalidate_cache_on_property_save p created s') = log s' @ [(INFO, msg)])
   \<and> (\<exists>msg. log (invalidate_cache_on_property_delete p s') = log s' @ [(INFO, msg)])"
  using assms
  by (simp add: cache_delete_def invalidate_properties_cache_def manual_cache_invalidation_def
        invalidate_cache_on_property_save_def invalidate_cache_on_property_delete_def
        logger_info_def logger_warning_def Let_def)

theorem absent_key_severity_witness:
  "cache_get (clock (example_system [])) (cache (example_system [])) ''all_properties'' = None
   \<and> fst (invalidate_properties_cache (example_system [])) = False
   \<and> map fst (log (snd (invalidate_properties_cache (example_system [])))) = [WARNING]
   \<and> map fst (log (snd (manual_cache_invalidation (example_system [])))) = [WARNING]
   \<and> map fst (log (invalidate_cache_on_property_delete (example_property 1 ''a'' 10)
                      (example_system []))) = [INFO]"
proof -
  have l: "log (example_system []) = []" by (simp add: example_system_def)
  from absent_key_severity [OF example_miss, where rows1 = "[]"
      and p = "example_property 1 ''a'' 10" and created = True and s' = "example_system []"]
    example_miss [of "[]"]
  show ?thesis unfolding l by auto
qed

text \<open>The claim as stated fails at the receiver of \<open>post_save\<close>: the key absent, the
  record it logs for a created Property is at info severity.\<close>

theorem absent_key_severity_counterexample:
  "cache_get (clock (example_system [])) (cache (example_system [])) ''all_properties'' = None
   \<and> log (invalidate_cache_on_property_save (example_property 1 ''Loft'' 10) True
            (example_system []))
       = [(INFO, ''Property '' @ quoted ''Loft'' @ '' was created. Cache key ''
                  @ quoted ''all_properties'' @ '' was not found (may have already expired).'')]
   \<and> fst (last (log (invalidate_cache_on_property_save (example_property 1 ''Loft'' 10) True
                       (example_system [])))) \<noteq> WARNING"
  by (simp add: example_system_def example_property_def cache_get_def cache_delete_def
        invalidate_cache_on_property_save_def logger_info_def Let_def)

section \<open>Floats\<close>

lemma pow2_pos: "0 < pow2 k"
  by (simp add: pow2_def)

lemma round_half_even_le: "x \<le> of_int n \<Longrightarrow> round_half_even x \<le> n"
proof -
  assume a: "x \<le> of_int n"
  have f: "\<lfloor>x\<rfloor> \<le> n" using a by (simp add: floor_le_iff)
  show ?thesis
  proof (cases "x = of_int \<lfloor>x\<rfloor>")
    case True
    then show ?thesis using f by (simp add: round_half_even_def Let_def)
  next
    case False
    then have "of_int \<lfloor>x\<rfloor> < x" by (metis of_int_floor_le order_less_le)
    then have "\<lfloor>x\<rfloor> < n" using a by (meson of_int_less_iff order_less_le_trans)
    then show ?thesis by (simp add: round_half_even_def Let_def)
  qed
qed

lemma round_half_even_ge: "of_int n \<le> x \<Longrightarrow> n \<le> round_half_even x"
proof -
  assume "of_int n \<le> x"
  then have "n \<le> \<lfloor>x\<rfloor>" by (simp add: le_floor_iff)
  then show ?thesis by (simp add: round_half_even_def Let_def)
qed

lemma bitlen_mono: "a \<le> b \<Longrightarrow> bitlen a \<le> bitlen b"
  by (auto simp add: bitlen_alt_def intro!: floor_mono)

lemma floor_log2_le_0:
  assumes "0 < x" "x \<le> 1"
  shows "floor_log2 x \<le> 0"
proof -
  obtain p q where pq: "quotient_of x = (p, q)" by (cases "quotient_of x")
  then have q: "0 < q" by (rule quotient_of_denom_pos)
  from pq have x: "x = of_int p / of_int q" by (rule quotient_of_div)
  from assms(2) q have "p \<le> q" by (simp add: x)
  then have "bitlen p - bitlen q \<le> 0" using bitlen_mono [of p q] by simp
  then show ?thesis by (simp add: floor_log2_def pq Let_def)
qed

lemma round_to_double_unit:
  assumes "0 \<le> x" "x \<le> 1"
  shows "0 \<le> round_to_double x \<and> round_to_double x \<le> 1"
proof (cases "x = 0")
  case True
  then show ?thesis by (simp add: round_to_double_def)
next
  case False
  with assms have pos: "0 < x" by simp
  define k where "k = max (floor_log2 \<bar>x\<bar>) (- 1022) - 52"
  define m where "m = nat (- k)"
  have "floor_log2 \<bar>x\<bar> \<le> 0" using floor_log2_le_0 [of x] pos assms(2) by simp
  then have k: "k < 0" by (simp add: k_def)
  then have quantum: "pow2 k = 1 / 2 ^ m" by (simp add: pow2_def m_def)
  have r: "round_to_double x = of_int (round_half_even (x * 2 ^ m)) / 2 ^ m"
    using False by (simp add: round_to_double_def Let_def k_def [symmetric] quantum)
  have "x * 2 ^ m \<le> of_int (2 ^ m)" using assms(2) by simp
  then have up: "round_half_even (x * 2 ^ m) \<le> 2 ^ m" by (rule round_half_even_le)
  have "of_int 0 \<le> x * 2 ^ m" using assms(1) by simp
  then have lo: "0 \<le> round_half_even (x * 2 ^ m)" by (rule round_half_even_ge)
  have "(of_int (round_half_even (x * 2 ^ m)) :: rat) \<le> of_int (2 ^ m)"
    using up by (simp only: of_int_le_iff)
  then have "(of_int (round_half_even (x * 2 ^ m)) :: rat) / 2 ^ m \<le> 1"
    by (simp add: divide_le_eq)
  moreover have "0 \<le> (of_int (round_half_even (x * 2 ^ m)) :: rat) / 2 ^ m"
    using lo by simp
  ultimately show ?thesis by (simp add: r)
qed

lemma true_div_part:
  assumes "0 < b" "a \<le> b"
  shows "true_div a b = Inr (round_to_double (of_nat a / of_nat b))"
proof -
  have "(of_nat a :: rat) / of_nat b \<le> 1" "0 \<le> (of_nat a :: rat) / of_nat b"
    using assms by (simp_all add: divide_le_eq)
  then have "round_to_double (of_nat a / of_nat b) \<le> 1"
    using round_to_double_unit by blast
  moreover have "(1::rat) < pow2 1024" by (simp add: pow2_def)
  ultimately have "\<not> pow2 1024 \<le> round_to_double (of_nat a / of_nat b)" by linarith
  then show ?thesis using assms(1) by (simp add: true_div_def Let_def)
qed

lemma round_half_even_near: "\<bar>of_int (round_half_even y) - y\<bar> \<le> 1 / 2"
proof -
  have "of_int \<lfloor>y\<rfloor> \<le> y" "y < of_int \<lfloor>y\<rfloor> + 1" by linarith+
  then show ?thesis by (auto simp add: round_half_even_def Let_def)
qed

lemma py_round2_near:
  "\<exists>n. py_round2 (PyFloat x) = PyFloat (round_to_double (of_int n / 100))
       \<and> \<bar>of_int n / 100 - x\<bar> \<le> 1 / 200"
proof -
  have "\<bar>of_int (round_half_even (x * 100)) - x * 100\<bar> \<le> 1 / 2"
    by (rule round_half_even_near)
  then have "\<bar>of_int (round_half_even (x * 100)) / 100 - x\<bar> \<le> 1 / 200"
    by (simp add: abs_le_iff field_simps)
  then show ?thesis by auto
qed

lemma float_ratio_1_3: "float_ratio 1 3 = 2345624805922133 / 70368744177664"
  by (simp only: float_ratio_def float_mul_def of_nat_numeral, code_simp)
lemma float_ratio_2_3: "float_ratio 2 3 = 2345624805922133 / 35184372088832"
  by (simp only: float_ratio_def float_mul_def of_nat_numeral, code_simp)
lemma py_round2_1_3: "py_round2 (PyFloat (2345624805922133 / 70368744177664))
             = PyFloat (2345390243441541 / 70368744177664)" by code_simp
lemma py_round2_2_3: "py_round2 (PyFloat (2345624805922133 / 35184372088832))
             = PyFloat (4691484174324859 / 70368744177664)" by code_simp
lemma float_ratio_90_100: "float_ratio 90 100 = 90"
  by (simp only: float_ratio_def float_mul_def of_nat_numeral, code_simp)
lemma float_ratio_10_100: "float_ratio 10 100 = 10"
  by (simp only: float_ratio_def float_mul_def of_nat_numeral, code_simp)
lemma py_round2_90: "py_round2 (PyFloat 90) = PyFloat 90" by code_simp
lemma py_round2_10: "py_round2 (PyFloat 10) = PyFloat 10" by code_simp
lemma float_ratio_89996: "float_ratio 89996 100000 = 6332905501013049 / 70368744177664"
  by (simp only: float_ratio_def float_mul_def of_nat_numeral, code_simp)
lemma py_round2_89996: "py_round2 (PyFloat (6332905501013049 / 70368744177664)) = PyFloat 90" by code_simp
lemma float_ratio_10004: "float_ratio 10004 100000 = 5631751334026805 / 562949953421312"
  by (simp only: float_ratio_def float_mul_def of_nat_numeral, code_simp)
lemma py_round2_10004: "py_round2 (PyFloat (5631751334026805 / 562949953421312)) = PyFloat 10" by code_simp

section \<open>Metrics\<close>

lemma ratio_value:
  assumes "part \<le> requests"
  shows "ratio part requests =
           Inr (if requests > 0
                then PyFloat (float_mul (round_to_double (of_nat part / of_nat requests)) 100)
                else PyInt 0)"
  using assms by (simp add: ratio_def true_div_part)

lemma metrics_success_record:
  fixes s :: "('d, 't) system"
  shows "fst (get_redis_cache_metrics (Inr info) s) =
         (\<lparr>keyspace_hits = dict_get (info_keyspace_hits info) 0,
           keyspace_misses = dict_get (info_keyspace_misses info) 0,
           total_requests = dict_get (info_keyspace_hits info) 0
                              + dict_get (info_keyspace_misses info) 0,
           hit_ratio =
             (if dict_get (info_keyspace_hits info) 0 + dict_get (info_keyspace_misses info) 0 > 0
              then py_round2 (PyFloat (float_mul (round_to_double
                     (of_nat (dict_get (info_keyspace_hits info) 0)
                      / of_nat (dict_get (info_keyspace_hits info) 0
                                + dict_get (info_keyspace_misses info) 0))) 100))
              else PyInt 0),
           miss_ratio =
             (if dict_get (info_keyspace_hits info) 0 + dict_get (info_keyspace_misses info) 0 > 0
              then py_round2 (PyFloat (float_mul (round_to_double
                     (of_nat (dict_get (info_keyspace_misses info) 0)
                      / of_nat (dict_get (info_keyspace_hits info) 0
                                + dict_get (info_keyspace_misses info) 0))) 100))
              else PyInt 0),
           redis_version = dict_get (info_redis_version info) ''Unknown'',
           used_memory = dict_get (info_used_memory info) 0,
           used_memory_human = dict_get (info_used_memory_human info) ''0B'',
           connected_clients = dict_get (info_connected_clients info) 0,
           total_commands_processed = dict_get (info_total_commands_processed info) 0,
           instantaneous_ops_per_sec = dict_get (info_instantaneous_ops_per_sec info) 0,
           cache_efficiency =
             efficiency
               (if dict_get (info_keyspace_hits info) 0 + dict_get (info_keyspace_misses info) 0 > 0
                then PyFloat (float_mul (round_to_double
                       (of_nat (dict_get (info_keyspace_hits info) 0)
                        / of_nat (dict_get (info_keyspace_hits info) 0
                                  + dict_get (info_keyspace_misses info) 0))) 100)
                else PyInt 0),
           error = None\<rparr>)"
proof -
  define h where "h = dict_get (info_keyspace_hits info) 0"
  define m where "m = dict_get (info_keyspace_misses info) 0"
  have a: "ratio h (h + m) = Inr (if h + m > 0
                then PyFloat (float_mul (round_to_double (of_nat h / of_nat (h + m))) 100)
                else PyInt 0)"
    by (rule ratio_value) simp
  have b: "ratio m (h + m) = Inr (if h + m > 0
                then PyFloat (float_mul (round_to_double (of_nat m / of_nat (h + m))) 100)
                else PyInt 0)"
    by (rule ratio_value) simp
  show ?thesis
    by (simp add: get_redis_cache_metrics_def metrics_try_def Let_def
          a [unfolded h_def m_def] b [unfolded h_def m_def] del: of_nat_add)
qed

lemma metrics_fields:
  fixes s :: "('d, 't) system"
  assumes "dict_get (info_keyspace_hits info) 0 = h"
    and "dict_get (info_keyspace_misses info) 0 = m"
  shows "error (fst (get_redis_cache_metrics (Inr info) s)) = None"
    and "keyspace_hits (fst (get_redis_cache_metrics (Inr info) s)) = h"
    and "keyspace_misses (fst (get_redis_cache_metrics (Inr info) s)) = m"
    and "total_requests (fst (get_redis_cache_metrics (Inr info) s)) = h + m"
    and "hit_ratio (fst (get_redis_cache_metrics (Inr info) s)) =
           (if 0 < h + m then py_round2 (PyFloat (float_ratio h (h + m))) else PyInt 0)"
    and "miss_ratio (fst (get_redis_cache_metrics (Inr info) s)) =
           (if 0 < h + m then py_round2 (PyFloat (float_ratio m (h + m))) else PyInt 0)"
    and "cache_efficiency (fst (get_redis_cache_metrics (Inr info) s)) =
           efficiency (if 0 < h + m then PyFloat (float_ratio h (h + m)) else PyInt 0)"
  unfolding metrics_success_record float_ratio_def
  using assms by (simp_all del: of_nat_add)

lemma example_info_counters:
  "dict_get (info_keyspace_hits (example_info h m)) 0 = h"
  "dict_get (info_keyspace_misses (example_info h m)) 0 = m"
  by (simp_all add: example_info_def dict_get_def)

text \<open>
  Claim C4, as amended. When connecting to the backend or asking for its statistics raises
  \<open>e\<close>, \<open>get_redis_cache_metrics\<close> returns the record of the \<open>except\<close> branch: every
  number zero, \<open>cache_efficiency\<close> \<open>Error\<close>, and \<open>str(e)\<close> as the error description, so
  the description is not empty whenever the message of the exception is not; it logs the
  failure at error severity. The function returns a record for every outcome of the
  connection: no exception leaves it.
\<close>

theorem metrics_failure_isolation:
  fixes s :: "('d, 't) system"
  shows "fst (get_redis_cache_metrics (Inl e) s) =
           \<lparr>keyspace_hits = 0, keyspace_misses = 0, total_requests = 0,
            hit_ratio = PyFloat 0, miss_ratio = PyFloat 0,
            redis_version = ''Unknown'', used_memory = 0, used_memory_human = ''0B'',
            connected_clients = 0, total_commands_processed = 0,
            instantaneous_ops_per_sec = 0,
            cache_efficiency = ''Error'', error = Some (str_exn e)\<rparr>
       \<and> (str_exn e \<noteq> [] \<longrightarrow>
             (\<exists>description. error (fst (get_redis_cache_metrics (Inl e) s)) = Some description
                \<and> description \<noteq> []))
       \<and> snd (get_redis_cache_metrics (Inl e) s)
           = logger_error (''Failed to retrieve Redis cache metrics: '' @ str_exn e) s"
  by (simp add: get_redis_cache_metrics_def metrics_try_def)

theorem metrics_failure_isolation_witness:
  "str_exn (ConnectionError ''Error 111 connecting to localhost:6379. Connection refused.'') \<noteq> []
   \<and> error (fst (get_redis_cache_metrics
        (Inl (ConnectionError ''Error 111 connecting to localhost:6379. Connection refused.''))
        (example_system [])))
       = Some ''Error 111 connecting to localhost:6379. Connection refused.''
   \<and> num_value (hit_ratio (fst (get_redis_cache_metrics
        (Inl (ConnectionError ''Error 111 connecting to localhost:6379. Connection refused.''))
        (example_system [])))) = 0
   \<and> cache_efficiency (fst (get_redis_cache_metrics
        (Inl (ConnectionError ''Error 111 connecting to localhost:6379. Connection refused.''))
        (example_system []))) = ''Error''"
proof -
  have n: "str_exn (ConnectionError
             ''Error 111 connecting to localhost:6379. Connection refused.'') \<noteq> []"
    by simp
  from metrics_failure_isolation [of
      "ConnectionError ''Error 111 connecting to localhost:6379. Connection refused.''"
      "example_system []"] n
  show ?thesis by simp
qed

text \<open>The claim as stated fails for an exception whose message is empty: the error
  description of the record is then the empty string.\<close>

theorem metrics_empty_description_counterexample:
  "str_exn (ConnectionError []) = []
   \<and> error (fst (get_redis_cache_metrics (Inl (ConnectionError [])) (example_system [])))
       = Some []"
  by (simp add: get_redis_cache_metrics_def metrics_try_def)

text \<open>
  Claim C5, as amended. On the success path, for every pair of counters, the record has
  no error entry and \<open>total_requests = hits + misses\<close>. The code computes the ratios
  \<open>(hits / total) * 100\<close> and \<open>(misses / total) * 100\<close> in floats when the total is
  positive, and takes the integer 0 for both when the total is 0: no division happens.
  The record's \<open>hit_ratio\<close> and \<open>miss_ratio\<close> are these values rounded to two decimals,
  and \<open>cache_efficiency\<close> is in every case the label of the hit ratio before that
  rounding: at least 90 \<open>Excellent\<close>, at least 70 \<open>Good\<close>, at least 50 \<open>Fair\<close>, else
  \<open>Poor\<close>; so the label is \<open>Poor\<close> when the total is 0. With 90 hits and 10 misses,
  \<open>hit_ratio\<close> is 90.0 and the label \<open>Excellent\<close>; with no hit and no miss both ratios
  are 0.
\<close>

theorem metrics_arithmetic:
  fixes s :: "('d, 't) system"
  assumes "dict_get (info_keyspace_hits info) 0 = h"
    and "dict_get (info_keyspace_misses info) 0 = m"
  shows "error (fst (get_redis_cache_metrics (Inr info) s)) = None
   \<and> keyspace_hits (fst (get_redis_cache_metrics (Inr info) s)) = h
   \<and> keyspace_misses (fst (get_redis_cache_metrics (Inr info) s)) = m
   \<and> total_requests (fst (get_redis_cache_metrics (Inr info) s)) = h + m
   \<and> hit_ratio (fst (get_redis_cache_metrics (Inr info) s))
       = (if 0 < h + m then py_round2 (PyFloat (float_ratio h (h + m))) else PyInt 0)
   \<and> miss_ratio (fst (get_redis_cache_metrics (Inr info) s))
       = (if 0 < h + m then py_round2 (PyFloat (float_ratio m (h + m))) else PyInt 0)
   \<and> cache_efficiency (fst (get_redis_cache_metrics (Inr info) s))
       = (if 0 < h + m
          then (if 90 \<le> float_ratio h (h + m) then ''Excellent''
                else if 70 \<le> float_ratio h (h + m) then ''Good''
                else if 50 \<le> float_ratio h (h + m) then ''Fair''
                else ''Poor'')
          else ''Poor'')
   \<and> (h = 90 \<and> m = 10 \<longrightarrow>
         hit_ratio (fst (get_redis_cache_metrics (Inr info) s)) = PyFloat 90
       \<and> miss_ratio (fst (get_redis_cache_metrics (Inr info) s)) = PyFloat 10
       \<and> cache_efficiency (fst (get_redis_cache_metrics (Inr info) s)) = ''Excellent'')
   \<and> (h = 0 \<and> m = 0 \<longrightarrow>
         hit_ratio (fst (get_redis_cache_metrics (Inr info) s)) = PyInt 0
       \<and> miss_ratio (fst (get_redis_cache_metrics (Inr info) s)) = PyInt 0
       \<and> cache_efficiency (fst (get_redis_cache_metrics (Inr info) s)) = ''Poor'')"
proof -
  note f = metrics_fields [OF assms, of s]
  have a: "error (fst (get_redis_cache_metrics (Inr info) s)) = None
   \<and> keyspace_hits (fst (get_redis_cache_metrics (Inr info) s)) = h
   \<and> keyspace_misses (fst (get_redis_cache_metrics (Inr info) s)) = m
   \<and> total_requests (fst (get_redis_cache_metrics (Inr info) s)) = h + m"
    by (simp add: f)
  have b: "hit_ratio (fst (get_redis_cache_metrics (Inr info) s))
       = (if 0 < h + m then py_round2 (PyFloat (float_ratio h (h + m))) else PyInt 0)"
    "miss_ratio (fst (get_redis_cache_metrics (Inr info) s))
       = (if 0 < h + m then py_round2 (PyFloat (float_ratio m (h + m))) else PyInt 0)"
    by (rule f(5), rule f(6))
  have c: "cache_efficiency (fst (get_redis_cache_metrics (Inr info) s))
       = (if 0 < h + m
          then (if 90 \<le> float_ratio h (h + m) then ''Excellent''
                else if 70 \<le> float_ratio h (h + m) then ''Good''
                else if 50 \<le> float_ratio h (h + m) then ''Fair''
                else ''Poor'')
          else ''Poor'')"
    by (simp add: f(7) efficiency_def)
  have d: "hit_ratio (fst (get_redis_cache_metrics (Inr info) s)) = PyFloat 90
       \<and> miss_ratio (fst (get_redis_cache_metrics (Inr info) s)) = PyFloat 10
       \<and> cache_efficiency (fst (get_redis_cache_metrics (Inr info) s)) = ''Excellent''"
    if "h = 90 \<and> m = 10"
    using that
    by (simp add: f float_ratio_90_100 float_ratio_10_100 py_round2_90 py_round2_10
          efficiency_def del: py_round2.simps)
  have e: "hit_ratio (fst (get_redis_cache_metrics (Inr info) s)) = PyInt 0
       \<and> miss_ratio (fst (get_redis_cache_metrics (Inr info) s)) = PyInt 0
       \<and> cache_efficiency (fst (get_redis_cache_metrics (Inr info) s)) = ''Poor''"
    if "h = 0 \<and> m = 0"
    using that by (simp add: f efficiency_def)
  from a b c d e show ?thesis by blast
qed

text \<open>With 89996 hits and 10004 misses the record shows a hit ratio of 90.0 and the label
  \<open>Good\<close>: the label is taken before the rounding.\<close>

theorem metrics_arithmetic_witness:
  "dict_get (info_keyspace_hits (example_info 89996 10004)) 0 = 89996
   \<and> dict_get (info_keyspace_misses (example_info 89996 10004)) 0 = 10004
   \<and> 0 < (89996 :: nat) + 10004
   \<and> total_requests (fst (get_redis_cache_metrics (Inr (example_info 89996 10004))
                             (example_system []))) = 100000
   \<and> hit_ratio (fst (get_redis_cache_metrics (Inr (example_info 89996 10004))
                        (example_system []))) = PyFloat 90
   \<and> miss_ratio (fst (get_redis_cache_metrics (Inr (example_info 89996 10004))
                         (example_system []))) = PyFloat 10
   \<and> cache_efficiency (fst (get_redis_cache_metrics (Inr (example_info 89996 10004))
                               (example_system []))) = ''Good''"
proof -
  have t: "(89996 :: nat) + 10004 = 100000" by simp
  have r: "\<not> 90 \<le> float_ratio 89996 100000" "70 \<le> float_ratio 89996 100000"
    by (simp_all add: float_ratio_89996)
  from metrics_arithmetic [OF example_info_counters, of 89996 10004 "example_system []"]
  show ?thesis
    unfolding t float_ratio_89996 py_round2_89996 float_ratio_10004 py_round2_10004 example_info_counters
    by simp
qed

text \<open>The claim as stated fails at 1 hit and 2 misses: the record's \<open>hit_ratio\<close> is the
  float 33.33, which is neither the float \<open>(1 / 3) * 100\<close> nor the quotient.\<close>

theorem metrics_hit_ratio_counterexample:
  "hit_ratio (fst (get_redis_cache_metrics (Inr (example_info 1 2)) (example_system [])))
     = PyFloat (2345390243441541 / 70368744177664)
   \<and> float_ratio 1 3 = 2345624805922133 / 70368744177664
   \<and> num_value (hit_ratio (fst (get_redis_cache_metrics (Inr (example_info 1 2))
                                  (example_system [])))) \<noteq> float_ratio 1 3
   \<and> num_value (hit_ratio (fst (get_redis_cache_metrics (Inr (example_info 1 2))
                                  (example_system [])))) \<noteq> 1 / 3 * 100"
proof -
  have t: "(1 :: nat) + 2 = 3" by simp
  have a: "hit_ratio (fst (get_redis_cache_metrics (Inr (example_info 1 2)) (example_system [])))
     = PyFloat (2345390243441541 / 70368744177664)"
    unfolding metrics_fields(5) [OF example_info_counters] t float_ratio_1_3 py_round2_1_3 by simp
  have b: "(2345390243441541 / 70368744177664 :: rat) \<noteq> 2345624805922133 / 70368744177664"
    by simp
  have c: "(2345390243441541 / 70368744177664 :: rat) \<noteq> 1 / 3 * 100"
    by simp
  show ?thesis
    unfolding a float_ratio_1_3 num_value.simps by (intro conjI refl b c)
qed

text \<open>
  Claim C10, as amended. With a positive total, the record's \<open>hit_ratio\<close> and
  \<open>miss_ratio\<close> are the computed ratios rounded to two decimals: each is the float nearest
  to some decimal \<open>n / 100\<close> that lies within 0.005 of the computed ratio. So a returned
  ratio can differ from the quotient: with 1 hit and 2 misses the two are the floats 33.33
  and 66.67, and differ from the quotients \<open>100 / 3\<close> and \<open>200 / 3\<close>.
\<close>

theorem metrics_ratios_rounded:
  fixes s :: "('d, 't) system"
  assumes "dict_get (info_keyspace_hits info) 0 = h"
    and "dict_get (info_keyspace_misses info) 0 = m"
    and "0 < h + m"
  shows "(\<exists>n. hit_ratio (fst (get_redis_cache_metrics (Inr info) s))
              = PyFloat (round_to_double (of_int n / 100))
            \<and> \<bar>of_int n / 100 - float_ratio h (h + m)\<bar> \<le> 1 / 200)
       \<and> (\<exists>n. miss_ratio (fst (get_redis_cache_metrics (Inr info) s))
              = PyFloat (round_to_double (of_int n / 100))
            \<and> \<bar>of_int n / 100 - float_ratio m (h + m)\<bar> \<le> 1 / 200)
       \<and> (h = 1 \<and> m = 2 \<longrightarrow>
             hit_ratio (fst (get_redis_cache_metrics (Inr info) s))
               = PyFloat (round_to_double (3333 / 100))
           \<and> num_value (hit_ratio (fst (get_redis_cache_metrics (Inr info) s))) \<noteq> 1 / 3 * 100
           \<and> miss_ratio (fst (get_redis_cache_metrics (Inr info) s))
               = PyFloat (round_to_double (6667 / 100))
           \<and> num_value (miss_ratio (fst (get_redis_cache_metrics (Inr info) s))) \<noteq> 2 / 3 * 100)"
proof -
  note f = metrics_fields [OF assms(1,2), of s]
  have a: "\<exists>n. hit_ratio (fst (get_redis_cache_metrics (Inr info) s))
              = PyFloat (round_to_double (of_int n / 100))
            \<and> \<bar>of_int n / 100 - float_ratio h (h + m)\<bar> \<le> 1 / 200"
    unfolding f using assms(3) py_round2_near [of "float_ratio h (h + m)"] by simp
  have b: "\<exists>n. miss_ratio (fst (get_redis_cache_metrics (Inr info) s))
              = PyFloat (round_to_double (of_int n / 100))
            \<and> \<bar>of_int n / 100 - float_ratio m (h + m)\<bar> \<le> 1 / 200"
    unfolding f using assms(3) py_round2_near [of "float_ratio m (h + m)"] by simp
  have c: "hit_ratio (fst (get_redis_cache_metrics (Inr info) s))
               = PyFloat (round_to_double (3333 / 100))
           \<and> num_value (hit_ratio (fst (get_redis_cache_metrics (Inr info) s))) \<noteq> 1 / 3 * 100
           \<and> miss_ratio (fst (get_redis_cache_metrics (Inr info) s))
               = PyFloat (round_to_double (6667 / 100))
           \<and> num_value (miss_ratio (fst (get_redis_cache_metrics (Inr info) s))) \<noteq> 2 / 3 * 100"
    if "h = 1 \<and> m = 2"
  proof -
    have t: "h + m = 3" "h = 1" "m = 2" using that by simp_all
    have r: "round_to_double (3333 / 100) = 2345390243441541 / 70368744177664"
      "round_to_double (6667 / 100) = 4691484174324859 / 70368744177664"
      by code_simp+
    have "hit_ratio (fst (get_redis_cache_metrics (Inr info) s))
               = py_round2 (PyFloat (float_ratio h 3))"
      using f(5) t(1) by (simp del: py_round2.simps)
    then have x: "hit_ratio (fst (get_redis_cache_metrics (Inr info) s))
               = PyFloat (2345390243441541 / 70368744177664)"
      by (simp only: t(2) float_ratio_1_3 py_round2_1_3)
    have "miss_ratio (fst (get_redis_cache_metrics (Inr info) s))
               = py_round2 (PyFloat (float_ratio m 3))"
      using f(6) t(1) by (simp del: py_round2.simps)
    then have y: "miss_ratio (fst (get_redis_cache_metrics (Inr info) s))
               = PyFloat (4691484174324859 / 70368744177664)"
      by (simp only: t(3) float_ratio_2_3 py_round2_2_3)
    show ?thesis unfolding x y r num_value.simps by simp
  qed
  from a b c show ?thesis by blast
qed

theorem metrics_ratios_rounded_witness:
  "dict_get (info_keyspace_hits (example_info 1 2)) 0 = 1
   \<and> dict_get (info_keyspace_misses (example_info 1 2)) 0 = 2
   \<and> 0 < (1 :: nat) + 2
   \<and> hit_ratio (fst (get_redis_cache_metrics (Inr (example_info 1 2)) (example_system [])))
       = PyFloat (round_to_double (3333 / 100))
   \<and> num_value (hit_ratio (fst (get_redis_cache_metrics (Inr (example_info 1 2))
                                  (example_system [])))) \<noteq> 1 / 3 * 100
   \<and> miss_ratio (fst (get_redis_cache_metrics (Inr (example_info 1 2)) (example_system [])))
       = PyFloat (round_to_double (6667 / 100))
   \<and> num_value (miss_ratio (fst (get_redis_cache_metrics (Inr (example_info 1 2))
                                   (example_system [])))) \<noteq> 2 / 3 * 100"
proof -
  have p: "0 < (1 :: nat) + 2" by simp
  from metrics_ratios_rounded [OF example_info_counters p, of "example_system []"]
    example_info_counters [of 1 2] p
  show ?thesis by blast
qed

text \<open>The claim as stated fails at 2345390243441541 hits and 4691484174324859 misses: the
  quotient \<open>hits / total * 100\<close> is no number with two decimals (its hundredfold is no
  integer), and the record's \<open>hit_ratio\<close> is that quotient all the same.\<close>

theorem metrics_ratio_is_quotient_counterexample:
  "(2345390243441541 / (2345390243441541 + 4691484174324859) * 100 :: rat)
     = 2345390243441541 / 70368744177664
   \<and> rat_of_int \<lfloor>2345390243441541 / 70368744177664 * 100 :: rat\<rfloor>
       \<noteq> 2345390243441541 / 70368744177664 * 100
   \<and> num_value (hit_ratio (fst (get_redis_cache_metrics
         (Inr (example_info 2345390243441541 4691484174324859)) (example_system []))))
       = 2345390243441541 / (2345390243441541 + 4691484174324859) * 100"
proof -
  have t: "(2345390243441541 :: nat) + 4691484174324859 = 7036874417766400" by simp
  have q: "(2345390243441541 / (2345390243441541 + 4691484174324859) * 100 :: rat)
             = 2345390243441541 / 70368744177664"
    by simp
  have "\<lfloor>2345390243441541 / 70368744177664 * 100 :: rat\<rfloor> = 3332"
    by (rule floor_unique) simp_all
  then have n: "rat_of_int \<lfloor>2345390243441541 / 70368744177664 * 100 :: rat\<rfloor>
             \<noteq> 2345390243441541 / 70368744177664 * 100"
    by simp
  have r: "float_ratio 2345390243441541 7036874417766400 = 2345390243441541 / 70368744177664"
    by (simp only: float_ratio_def float_mul_def of_nat_numeral, code_simp)
  have p: "py_round2 (PyFloat (2345390243441541 / 70368744177664))
             = PyFloat (2345390243441541 / 70368744177664)"
    by code_simp
  have a: "hit_ratio (fst (get_redis_cache_metrics
             (Inr (example_info 2345390243441541 4691484174324859)) (example_system [])))
           = PyFloat (2345390243441541 / 70368744177664)"
    unfolding metrics_fields(5) [OF example_info_counters] t r p by simp
  show ?thesis
    unfolding a num_value.simps q by (intro conjI refl n)
qed

end
